theory Spec2Isabelle
  imports Complex_Main "HOL-Library.AList"
begin

section \<open>JavaScript values\<close>

text \<open>
  The values the program reads out of parsed JSON bodies and out of \<open>wallets.json\<close>.
  JavaScript numbers are taken as exact rationals; strings are lists of 8-bit characters.
  An object is its list of own properties; the first binding of a key is the property.
\<close>

datatype jsval =
    JUndefined
  | JNull
  | JBool bool
  | JNum rat
  | JStr string
  | JArr "jsval list"
  | JObj "(string \<times> jsval) list"

text \<open>Truthiness, as \<open>&&\<close>, \<open>||\<close>, \<open>?:\<close> and \<open>if\<close> decide it.\<close>

fun truthy :: "jsval \<Rightarrow> bool" where
  "truthy JUndefined = False"
| "truthy JNull = False"
| "truthy (JBool b) = b"
| "truthy (JNum n) = (n \<noteq> 0)"
| "truthy (JStr s) = (s \<noteq> [])"
| "truthy (JArr xs) = True"
| "truthy (JObj kvs) = True"

datatype js_error =
    TypeError                 \<comment> \<open>property read on \<open>undefined\<close>/\<open>null\<close>, call of a non-function\<close>
  | HttpError "nat option"    \<comment> \<open>an error raised by \<open>axios\<close>; \<open>error.response?.status\<close>\<close>
  | Thrown string             \<comment> \<open>any other exception, with its message\<close>

text \<open>
  \<open>v.k\<close> for the property names the program reads (\<open>data\<close>, \<open>valid\<close>, \<open>message\<close>,
  \<open>statusCode\<close>, \<open>startTimestamp\<close>, \<open>nodePoints\<close>, \<open>address\<close>, \<open>privateKey\<close>): none of
  them is a property of a primitive's or an array's prototype, so there the read gives
  \<open>undefined\<close>; on \<open>undefined\<close> and \<open>null\<close> it raises a TypeError.
\<close>

fun get :: "jsval \<Rightarrow> string \<Rightarrow> js_error + jsval" where
  "get JUndefined k = Inl TypeError"
| "get JNull k = Inl TypeError"
| "get (JObj kvs) k = (case map_of kvs k of Some v \<Rightarrow> Inr v | None \<Rightarrow> Inr JUndefined)"
| "get v k = Inr JUndefined"

text \<open>\<open>v?.k\<close>: \<open>undefined\<close> instead of the TypeError.\<close>

fun get_opt :: "jsval \<Rightarrow> string \<Rightarrow> jsval" where
  "get_opt v k = (case get v k of Inl e \<Rightarrow> JUndefined | Inr w \<Rightarrow> w)"

section \<open>Requests, responses and the observable events\<close>

datatype agent = HttpsProxyAgent string | SocksProxyAgent string

record response =
  status :: nat
  data :: jsval

record config =
  http_method :: string
  url :: string
  req_data :: jsval
  headers :: "(string \<times> string) list"
  timeout :: nat
  httpsAgent :: "agent option"
  validateStatus :: "nat \<Rightarrow> bool"

datatype level = Info | Warn | Error | Success | Debug | Verbose

text \<open>
  What a run does that can be observed from outside: a console line of the logger (its
  level and an English rendering of its message; the value and error arguments are left
  out), a line of \<open>logger.progress\<close> (wallet address, step, status), an HTTP call handed
  to \<open>axios\<close>, a timer armed with \<open>setTimeout\<close> (milliseconds), and the exit of the
  process.
\<close>

datatype event =
    Log level string
  | Progress jsval string string
  | Http config
  | Timer rat
  | Exit int

fun is_Http :: "event \<Rightarrow> bool" where
  "is_Http (Http c) = True"
| "is_Http e = False"

fun is_Timer :: "event \<Rightarrow> bool" where
  "is_Timer (Timer d) = True"
| "is_Timer e = False"

text \<open>The HTTP calls and timers of a trace, in order; the number of HTTP calls; the timers.\<close>

definition io :: "event list \<Rightarrow> event list" where
  "io es = filter (\<lambda>e. is_Http e \<or> is_Timer e) es"

definition attempts :: "event list \<Rightarrow> nat" where
  "attempts es = length (filter is_Http es)"

fun waits :: "event list \<Rightarrow> rat list" where
  "waits [] = []"
| "waits (Timer d # es) = d # waits es"
| "waits (e # es) = waits es"

section \<open>The delay primitive\<close>

text \<open>
  \<^verbatim>\<open>function delay(ms) { return new Promise(resolve => setTimeout(resolve, ms * 1000)); }\<close>
  The parameter is called \<open>ms\<close> but is multiplied by 1000: callers pass seconds.
\<close>

definition delay :: "rat \<Rightarrow> event list" where
  "delay ms = [Timer (ms * 1000)]"

section \<open>The retry executor: \<open>RequestHandler.makeRequest\<close>\<close>

text \<open>
  \<open>ax i\<close> is what the call \<open>await axios(config)\<close> of loop index \<open>i\<close> does: it resolves
  with a response (\<open>Inr\<close>) or throws (\<open>Inl\<close>). \<open>error.response?.status\<close> is the status of
  an \<open>axios\<close> error that carries a response and \<open>undefined\<close> for every other error.
\<close>

fun error_status :: "js_error \<Rightarrow> nat option" where
  "error_status (HttpError s) = s"
| "error_status e = None"

function RequestHandler_loop ::
  "(nat \<Rightarrow> js_error + response) \<Rightarrow> config \<Rightarrow> int \<Rightarrow> rat \<Rightarrow> nat \<Rightarrow> response option \<times> event list"
where
  "RequestHandler_loop ax config retries backoffMs i =
     (if int i < retries then
        (case ax i of
           Inr response \<Rightarrow>
             (Some response, [Log Verbose ''attempting request'', Http config, Log Verbose ''request succeeded''])
         | Inl error \<Rightarrow>
             (let isLastRetry = (int i = retries - 1);
                  status = error_status error
              in if status = Some 500 then
                   (if isLastRetry then
                      (None, [Log Verbose ''attempting request'', Http config, Log Error ''server error (500)''])
                    else
                      (let waitTime = backoffMs * (3 / 2) ^ i
                       in apsnd (\<lambda>es. [Log Verbose ''attempting request'', Http config,
                                        Log Error ''server error (500)'', Log Warn ''waiting before retry'']
                                       @ delay (waitTime / 1000) @ es)
                            (RequestHandler_loop ax config retries backoffMs (i + 1))))
                 else if isLastRetry then
                   (None, [Log Verbose ''attempting request'', Http config, Log Error ''max retries reached''])
                 else
                   apsnd (\<lambda>es. [Log Verbose ''attempting request'', Http config, Log Warn ''request failed'']
                                @ delay 2 @ es)
                     (RequestHandler_loop ax config retries backoffMs (i + 1))))
      else (None, []))"
  by pat_completeness auto
termination
  by (relation "measure (\<lambda>(ax, config, retries, backoffMs, i). nat (retries - int i))") auto

declare RequestHandler_loop.simps [simp del]

text \<open>\<^verbatim>\<open>static async makeRequest(config, retries = 30, backoffMs = 2000)\<close>: the loop from \<open>i = 0\<close>.\<close>

definition RequestHandler_makeRequest ::
  "(nat \<Rightarrow> js_error + response) \<Rightarrow> config \<Rightarrow> int \<Rightarrow> rat \<Rightarrow> response option \<times> event list"
where
  "RequestHandler_makeRequest ax config retries backoffMs = RequestHandler_loop ax config retries backoffMs 0"

section \<open>The HTTP client\<close>

text \<open>
  \<open>axios\<close> is an external library. What the network does for one call is a \<open>raw\<close>
  outcome: a reply with a status and a body, or none (network failure, or the timeout
  of the configuration). \<open>axios(config)\<close> resolves with a reply whose status
  \<open>config.validateStatus\<close> accepts, and throws an error carrying the response for
  a reply it rejects, and an error without a response when there is no reply.
\<close>

datatype raw = Reply response | NoReply

definition axios :: "config \<Rightarrow> raw \<Rightarrow> js_error + response" where
  "axios config r =
     (case r of
        NoReply \<Rightarrow> Inl (HttpError None)
      | Reply res \<Rightarrow>
          (if validateStatus config (status res) then Inr res
           else Inl (HttpError (Some (status res)))))"

fun delivered :: "raw \<Rightarrow> bool" where
  "delivered (Reply res) = (status res < 500)"
| "delivered NoReply = False"

section \<open>Strings\<close>

text \<open>\<open>\s\<close> of a regular expression and the characters \<open>trim\<close> strips, among 8-bit characters.\<close>

definition is_space :: "char \<Rightarrow> bool" where
  "is_space c = (c \<in> set [CHR 0x09, CHR 0x0A, CHR 0x0B, CHR 0x0C, CHR 0x0D, CHR 0x20, CHR 0xA0])"

definition trim :: "string \<Rightarrow> string" where
  "trim s = rev (dropWhile is_space (rev (dropWhile is_space s)))"

definition startsWith :: "string \<Rightarrow> string \<Rightarrow> bool" where
  "startsWith s p = (take (length p) s = p)"

text \<open>\<open>s.split(sep)\<close> for a one-character separator: never empty, \<open>''''\<close> splits into \<open>['''']\<close>.\<close>

fun split :: "char \<Rightarrow> string \<Rightarrow> string list" where
  "split sep [] = [[]]"
| "split sep (c # cs) =
     (if c = sep then [] # split sep cs
      else (case split sep cs of [] \<Rightarrow> [[c]] | l # ls \<Rightarrow> (c # l) # ls))"

text \<open>The decimal digits of a non-negative integer, as a template literal prints it.\<close>

function dec :: "nat \<Rightarrow> string" where
  "dec n = (if n < 10 then [char_of (48 + n)] else dec (n div 10) @ [char_of (48 + n mod 10)])"
  by pat_completeness auto
termination
  by (relation "measure (\<lambda>n. n)") auto

declare dec.simps [simp del]

subsection \<open>The pattern \<^verbatim>\<open>/after\s+([^!]+)!/\<close>\<close>

text \<open>
  \<open>message.match(/after\s+([^!]+)!/)\<close> by backtracking: the leftmost position where the
  pattern matches; there \<open>\s+\<close> and \<open>[^!]+\<close> are greedy and give characters back one at
  a time. The result is the text of the capture group, \<open>None\<close> for \<open>null\<close>.
  \<open>group t m\<close> tries the group with \<open>m\<close> characters of \<open>t\<close>, then fewer;
  \<open>spaces r n\<close> tries \<open>\s+\<close> with \<open>n\<close> characters of \<open>r\<close>, then fewer.
\<close>

fun group :: "string \<Rightarrow> nat \<Rightarrow> string option" where
  "group t 0 = None"
| "group t (Suc m) =
     (if take 1 (drop (Suc m) t) = ''!'' then Some (take (Suc m) t) else group t m)"

fun spaces :: "string \<Rightarrow> nat \<Rightarrow> string option" where
  "spaces r 0 = None"
| "spaces r (Suc n) =
     (case group (drop (Suc n) r) (length (takeWhile (\<lambda>c. c \<noteq> CHR ''!'') (drop (Suc n) r))) of
        Some g \<Rightarrow> Some g
      | None \<Rightarrow> spaces r n)"

definition match_here :: "string \<Rightarrow> string option" where
  "match_here s =
     (if startsWith s ''after''
      then spaces (drop 5 s) (length (takeWhile is_space (drop 5 s)))
      else None)"

fun cooldown_match :: "string \<Rightarrow> string option" where
  "cooldown_match [] = match_here []"
| "cooldown_match (c # cs) =
     (case match_here (c # cs) of Some g \<Rightarrow> Some g | None \<Rightarrow> cooldown_match cs)"

section \<open>Actions: a result or an exception, and the events so far\<close>

type_synonym 'a act = "(js_error + 'a) \<times> event list"

definition ret :: "'a \<Rightarrow> 'a act" where
  "ret x = (Inr x, [])"

definition throw :: "js_error \<Rightarrow> 'a act" where
  "throw e = (Inl e, [])"

text \<open>A pure expression that may throw.\<close>

definition js :: "js_error + 'a \<Rightarrow> 'a act" where
  "js r = (r, [])"

text \<open>An awaited call that cannot throw.\<close>

definition total :: "'a \<times> event list \<Rightarrow> 'a act" where
  "total m = (Inr (fst m), snd m)"

text \<open>\<open>m; f\<close>: an exception of \<open>m\<close> skips \<open>f\<close>.\<close>

definition bind :: "'a act \<Rightarrow> ('a \<Rightarrow> 'b act) \<Rightarrow> 'b act" where
  "bind m f =
     (case fst m of
        Inl e \<Rightarrow> (Inl e, snd m)
      | Inr x \<Rightarrow> (fst (f x), snd m @ snd (f x)))"

definition seq :: "'a act \<Rightarrow> 'b act \<Rightarrow> 'b act" where
  "seq m k = bind m (\<lambda>x. k)"

text \<open>\<open>try { m } catch (error) { h error }\<close>\<close>

definition try_catch :: "'a act \<Rightarrow> (js_error \<Rightarrow> 'a act) \<Rightarrow> 'a act" where
  "try_catch m h =
     (case fst m of
        Inl e \<Rightarrow> (fst (h e), snd m @ snd (h e))
      | Inr x \<Rightarrow> m)"

definition logger :: "level \<Rightarrow> string \<Rightarrow> unit act" where
  "logger lvl msg = (Inr (), [Log lvl msg])"

definition logger_progress :: "jsval \<Rightarrow> string \<Rightarrow> string \<Rightarrow> unit act" where
  "logger_progress w step st = (Inr (), [Progress w step st])"

definition await_delay :: "rat \<Rightarrow> unit act" where
  "await_delay s = (Inr (), delay s)"

section \<open>Reading the input files\<close>

text \<open>
  \<open>readFile(pathFile)\<close>: the file's text (\<open>None\<close> when \<open>fs.readFile\<close> fails), split into
  lines, each trimmed, the empty ones dropped; a failure is logged and gives \<open>[]\<close>.
\<close>

definition readFile :: "string option \<Rightarrow> string list \<times> event list" where
  "readFile file =
     (case file of
        Some datas \<Rightarrow> (filter (\<lambda>d. length d > 0) (map trim (split (CHR 0x0A) datas)), [])
      | None \<Rightarrow> ([], [Log Error ''error reading file'']))"

text \<open>
  What \<open>readWallets\<close> finds: no file (\<open>ENOENT\<close>), another failure of the file system or
  of \<open>JSON.parse\<close> (an exception with its message), or the parsed array.
\<close>

datatype wallets_file = ENOENT | Failure string | Parsed "jsval list"

definition readWallets :: "wallets_file \<Rightarrow> jsval list act" where
  "readWallets file =
     (case file of
        ENOENT \<Rightarrow> seq (logger Info ''no wallets found in wallets.json'') (ret [])
      | Failure msg \<Rightarrow> throw (Thrown msg)
      | Parsed ws \<Rightarrow> ret ws)"

section \<open>The wallet session: \<open>LayerEdgeConnection\<close>\<close>

definition newAgent :: "string option \<Rightarrow> agent option \<times> event list" where
  "newAgent p =
     (case p of
        None \<Rightarrow> (None, [])
      | Some px \<Rightarrow>
          (if px = [] then (None, [])
           else if startsWith px ''http://'' then (Some (HttpsProxyAgent px), [])
           else if startsWith px ''socks4://'' \<or> startsWith px ''socks5://''
             then (Some (SocksProxyAgent px), [])
           else (None, [Log Warn ''unsupported proxy type''])))"

text \<open>
  The wallet library (\<open>ethers\<close>) is external: \<open>new Wallet(privateKey)\<close> may throw,
  \<open>wallet.signMessage(message)\<close> may throw; \<open>Wallet.createRandom()\<close> returns a fresh
  wallet, which the environment supplies.
\<close>

record wallet =
  address :: string
  privateKey :: string

record ethers =
  newWallet :: "jsval \<Rightarrow> js_error + wallet"
  signMessage :: "wallet \<Rightarrow> string \<Rightarrow> js_error + string"

record LayerEdgeConnection =
  refCode :: string
  proxy :: "string option"
  retryCount :: int
  this_headers :: "(string \<times> string) list"
  axiosConfig :: config
  this_wallet :: wallet

definition browser_headers :: "(string \<times> string) list" where
  \<open>browser_headers =
     [(''Accept'', ''application/json, text/plain, */*''),
      (''Accept-Encoding'', ''gzip, deflate, br''),
      (''Accept-Language'', ''en-US,en;q=0.9''),
      (''Origin'', ''https://layeredge.io''),
      (''Referer'', ''https://layeredge.io/''),
      (''Sec-Fetch-Dest'', ''empty''),
      (''Sec-Fetch-Mode'', ''cors''),
      (''Sec-Fetch-Site'', ''same-site''),
      (''User-Agent'', ''Mozilla/5.0 (Windows NT 10.0; Win64; x64) AppleWebKit/537.36 (KHTML, like Gecko) Chrome/121.0.0.0 Safari/537.36''),
      (''sec-ch-ua'', ''"Not A(Brand";v="99", "Google Chrome";v="121", "Chromium";v="121"''),
      (''sec-ch-ua-mobile'', ''?0''),
      (''sec-ch-ua-platform'', ''"Windows"'')]\<close>

text \<open>
  \<open>new LayerEdgeConnection(proxy, privateKey, refCode)\<close>; \<open>fresh\<close> is what
  \<open>Wallet.createRandom()\<close> would return. The \<open>method\<close>, \<open>url\<close> and \<open>data\<close> of
  \<open>axiosConfig\<close> are absent until \<open>makeRequest\<close> sets them.
\<close>

definition new_LayerEdgeConnection ::
  "ethers \<Rightarrow> wallet \<Rightarrow> string option \<Rightarrow> jsval \<Rightarrow> string \<Rightarrow> LayerEdgeConnection act"
where
  "new_LayerEdgeConnection lib fresh p key code =
     bind (total (if p \<noteq> None \<and> p \<noteq> Some [] then newAgent p else (None, []))) (\<lambda>agent.
     bind (js (if truthy key then newWallet lib key else Inr fresh)) (\<lambda>w.
     seq (logger Verbose ''initialising LayerEdge connection'')
       (ret \<lparr>refCode = code, proxy = p, retryCount = 30, this_headers = browser_headers,
              axiosConfig = \<lparr>http_method = [], url = [], req_data = JUndefined,
                headers = browser_headers, timeout = 60000, httpsAgent = agent,
                validateStatus = (\<lambda>status. status < 500)\<rparr>,
              this_wallet = w\<rparr>)))"

text \<open>
  \<open>makeRequest(method, url, config = {})\<close>: the callers' \<open>config\<close> has at most a \<open>data\<close>
  (\<open>JUndefined\<close> when absent) and \<open>headers\<close> (\<open>[]\<close> when absent). The retry executor
  runs with \<open>this.retryCount\<close> and its default \<open>backoffMs = 2000\<close>.
\<close>

definition finalConfig :: "LayerEdgeConnection \<Rightarrow> string \<Rightarrow> string \<Rightarrow> jsval \<Rightarrow> (string \<times> string) list \<Rightarrow> config" where
  "finalConfig this m u d hs =
     (axiosConfig this)\<lparr>http_method := m, url := u, req_data := d,
        headers := AList.merge (this_headers this) hs\<rparr>"

definition makeRequest ::
  "LayerEdgeConnection \<Rightarrow> string \<Rightarrow> string \<Rightarrow> jsval \<Rightarrow> (string \<times> string) list \<Rightarrow> (nat \<Rightarrow> raw)
     \<Rightarrow> response option \<times> event list"
where
  "makeRequest this m u d hs net =
     RequestHandler_makeRequest (\<lambda>i. axios (finalConfig this m u d hs) (net i))
       (finalConfig this m u d hs) (retryCount this) 2000"



definition connectNode :: "ethers \<Rightarrow> LayerEdgeConnection \<Rightarrow> nat \<Rightarrow> (nat \<Rightarrow> raw) \<Rightarrow> bool act" where
  "connectNode lib this timestamp net =
     bind (js (signMessage lib (this_wallet this)
             (''Node activation request for '' @ address (this_wallet this) @ '' at '' @ dec timestamp))) (\<lambda>sign.
     bind (total (makeRequest this ''post''
             (''https://referralapi.layeredge.io/api/light-node/node-action/''
                @ address (this_wallet this) @ ''/start'')
             (JObj [(''sign'', JStr sign), (''timestamp'', JNum (of_nat timestamp))])
             [(''Content-Type'', ''application/json'')] net)) (\<lambda>response.
     case response of
       None \<Rightarrow> seq (logger Info ''node connection failed'') (ret False)
     | Some r \<Rightarrow>
         if truthy (data r) then
           bind (js (get (data r) ''message'')) (\<lambda>msg.
           if msg = JStr ''node action executed successfully''
           then seq (logger Info ''node connected'') (ret True)
           else seq (logger Info ''node connection failed'') (ret False))
         else seq (logger Info ''node connection failed'') (ret False)))"

definition stopNode :: "ethers \<Rightarrow> LayerEdgeConnection \<Rightarrow> nat \<Rightarrow> (nat \<Rightarrow> raw) \<Rightarrow> bool act" where
  "stopNode lib this timestamp net =
     bind (js (signMessage lib (this_wallet this)
             (''Node deactivation request for '' @ address (this_wallet this) @ '' at '' @ dec timestamp))) (\<lambda>sign.
     bind (total (makeRequest this ''post''
             (''https://referralapi.layeredge.io/api/light-node/node-action/''
                @ address (this_wallet this) @ ''/stop'')
             (JObj [(''sign'', JStr sign), (''timestamp'', JNum (of_nat timestamp))]) [] net)) (\<lambda>response.
     case response of
       None \<Rightarrow> seq (logger Error ''stopping node and claiming points failed'') (ret False)
     | Some r \<Rightarrow>
         if truthy (data r) then seq (logger Info ''stopped node and claimed points'') (ret True)
         else seq (logger Error ''stopping node and claiming points failed'') (ret False)))"

text \<open>
  \<open>response.data.message.match(...)\<close>: only a string has a \<open>match\<close> method among the
  values of a parsed body; on anything else the call raises a TypeError.
\<close>

definition message_match :: "jsval \<Rightarrow> js_error + string option" where
  "message_match msg = (case msg of JStr s \<Rightarrow> Inr (cooldown_match s) | _ \<Rightarrow> Inl TypeError)"

definition dailyCheckIn :: "ethers \<Rightarrow> LayerEdgeConnection \<Rightarrow> nat \<Rightarrow> (nat \<Rightarrow> raw) \<Rightarrow> bool act" where
  "dailyCheckIn lib this timestamp net =
     try_catch
       (bind (js (signMessage lib (this_wallet this)
               (''I am claiming my daily node point for '' @ address (this_wallet this)
                  @ '' at '' @ dec timestamp))) (\<lambda>sign.
        bind (total (makeRequest this ''post''
               ''https://referralapi.layeredge.io/api/light-node/claim-node-points''
               (JObj [(''sign'', JStr sign), (''timestamp'', JNum (of_nat timestamp)),
                      (''walletAddress'', JStr (address (this_wallet this)))])
               [(''Content-Type'', ''application/json'')] net)) (\<lambda>response.
        case response of
          None \<Rightarrow> seq (logger Error ''daily check-in failed'') (ret False)
        | Some r \<Rightarrow>
            if truthy (data r) then
              bind (js (get (data r) ''statusCode'')) (\<lambda>statusCode.
              if truthy statusCode \<and> statusCode = JNum 405 then
                bind (js (get (data r) ''message'')) (\<lambda>msg.
                bind (js (message_match msg)) (\<lambda>cooldownMatch.
                seq (logger Info (''daily check-in already done, come back after ''
                       @ (case cooldownMatch of Some g \<Rightarrow> trim g | None \<Rightarrow> ''unknown time'')))
                  (ret True)))
              else seq (logger Info ''daily check-in succeeded'') (ret True))
            else seq (logger Error ''daily check-in failed'') (ret False))))
       (\<lambda>error. seq (logger Error ''error during daily check-in'') (ret False))"

definition checkNodeStatus :: "LayerEdgeConnection \<Rightarrow> (nat \<Rightarrow> raw) \<Rightarrow> bool act" where
  "checkNodeStatus this net =
     bind (total (makeRequest this ''get''
             (''https://referralapi.layeredge.io/api/light-node/node-status/''
                @ address (this_wallet this))
             JUndefined [] net)) (\<lambda>response.
     case response of
       None \<Rightarrow> seq (logger Error ''node not running, trying to start it'') (ret False)
     | Some r \<Rightarrow>
         if truthy (data r) then
           bind (js (get (data r) ''data'')) (\<lambda>d.
           bind (js (get d ''startTimestamp'')) (\<lambda>startTimestamp.
           if startTimestamp \<noteq> JNull then seq (logger Info ''node is running'') (ret True)
           else seq (logger Error ''node not running, trying to start it'') (ret False)))
         else seq (logger Error ''node not running, trying to start it'') (ret False))"

definition checkNodePoints :: "LayerEdgeConnection \<Rightarrow> (nat \<Rightarrow> raw) \<Rightarrow> bool act" where
  "checkNodePoints this net =
     bind (total (makeRequest this ''get''
             (''https://referralapi.layeredge.io/api/referral/wallet-details/''
                @ address (this_wallet this))
             JUndefined [] net)) (\<lambda>response.
     case response of
       None \<Rightarrow> seq (logger Error ''checking total points failed'') (ret False)
     | Some r \<Rightarrow>
         if truthy (data r) then
           bind (js (get (data r) ''data'')) (\<lambda>d.
           seq (logger Info ''total points'') (ret True))
         else seq (logger Error ''checking total points failed'') (ret False))"

section \<open>The orchestration loop: \<open>run\<close>\<close>


text \<open>
  What the outside world does while one wallet is processed: the wallet that
  \<open>Wallet.createRandom()\<close> would return, and for each operation the value of \<open>Date.now()\<close>
  and the network's outcome for each of its HTTP calls.
\<close>

record walletEnv =
  fresh :: wallet
  t_daily :: nat
  n_daily :: "nat \<Rightarrow> raw"
  n_status :: "nat \<Rightarrow> raw"
  t_stop :: nat
  n_stop :: "nat \<Rightarrow> raw"
  t_connect :: nat
  n_connect :: "nat \<Rightarrow> raw"
  n_points :: "nat \<Rightarrow> raw"







text \<open>The steps announced as being processed, in order: the markers logged right before each operation.\<close>

fun steps :: "event list \<Rightarrow> string list" where
  "steps [] = []"
| "steps (Progress w step st # es) = (if st = ''processing'' then step # steps es else steps es)"
| "steps (e # es) = steps es"

section \<open>Names for the outcomes the properties speak about\<close>

abbreviation status_response :: "LayerEdgeConnection \<Rightarrow> (nat \<Rightarrow> raw) \<Rightarrow> response option" where
  "status_response this net \<equiv>
     fst (makeRequest this ''get''
            (''https://referralapi.layeredge.io/api/light-node/node-status/'' @ address (this_wallet this))
            JUndefined [] net)"




abbreviation daily_signature :: "ethers \<Rightarrow> LayerEdgeConnection \<Rightarrow> nat \<Rightarrow> js_error + string" where
  "daily_signature lib this timestamp \<equiv>
     signMessage lib (this_wallet this)
       (''I am claiming my daily node point for '' @ address (this_wallet this) @ '' at '' @ dec timestamp)"

abbreviation daily_response :: "LayerEdgeConnection \<Rightarrow> string \<Rightarrow> nat \<Rightarrow> (nat \<Rightarrow> raw) \<Rightarrow> response option \<times> event list" where
  "daily_response this sign timestamp net \<equiv>
     makeRequest this ''post''
       ''https://referralapi.layeredge.io/api/light-node/claim-node-points''
       (JObj [(''sign'', JStr sign), (''timestamp'', JNum (of_nat timestamp)),
              (''walletAddress'', JStr (address (this_wallet this)))])
       [(''Content-Type'', ''application/json'')] net"

section \<open>Example inputs\<close>

definition config0 :: config where
  "config0 = \<lparr>http_method = ''get'', url = ''https://example.org/'', req_data = JUndefined, headers = [],
     timeout = 60000, httpsAgent = None, validateStatus = (\<lambda>status. status < 500)\<rparr>"

definition net0 :: "nat \<Rightarrow> raw" where
  "net0 i = (if i = 0 then NoReply
             else if i = 1 then Reply \<lparr>status = 500, data = JNull\<rparr>
             else Reply \<lparr>status = 404, data = JObj [(''message'', JStr ''not found'')]\<rparr>)"

definition wallet0 :: wallet where
  "wallet0 = \<lparr>address = ''0xA11CE'', privateKey = ''k0''\<rparr>"

definition lib0 :: ethers where
  "lib0 = \<lparr>newWallet = (\<lambda>key. case key of
                 JStr s \<Rightarrow> (if s = ''bad'' then Inl (Thrown ''invalid private key'')
                            else Inr \<lparr>address = ''0x'' @ s, privateKey = s\<rparr>)
               | _ \<Rightarrow> Inl (Thrown ''invalid private key'')),
            signMessage = (\<lambda>w msg. Inr (''signed:'' @ msg))\<rparr>"

definition lib_nosign :: ethers where
  "lib_nosign = lib0\<lparr>signMessage := (\<lambda>w msg. Inl (Thrown ''signing failed''))\<rparr>"

definition session0 :: LayerEdgeConnection where
  "session0 = \<lparr>refCode = ''knYyWnsE'', proxy = None, retryCount = 30, this_headers = browser_headers,
      axiosConfig = \<lparr>http_method = [], url = [], req_data = JUndefined,
        headers = browser_headers, timeout = 60000, httpsAgent = None,
        validateStatus = (\<lambda>status. status < 500)\<rparr>,
      this_wallet = wallet0\<rparr>"

definition always :: "nat \<Rightarrow> jsval \<Rightarrow> nat \<Rightarrow> raw" where
  "always st body i = Reply \<lparr>status = st, data = body\<rparr>"

definition claimed_body :: jsval where
  "claimed_body = JObj [(''statusCode'', JNum 405),
     (''message'', JStr ''Daily point already claimed, come back after 11 hours 5 minutes! '')]"


section \<open>Properties of the retry executor\<close>

lemma io_Cons [simp]:
  "io (Log l m # es) = io es"
  "io (Http c # es) = Http c # io es"
  "io (Timer d # es) = Timer d # io es"
  "io (Exit n # es) = io es"
  "io (Progress a st r # es) = io es"
  "io [] = []"
  by (simp_all add: io_def)

lemma io_append [simp]: "io (xs @ ys) = io xs @ io ys"
  by (simp add: io_def)

lemma attempts_Cons [simp]:
  "attempts (Log l m # es) = attempts es"
  "attempts (Http c # es) = Suc (attempts es)"
  "attempts (Timer d # es) = attempts es"
  "attempts (Exit n # es) = attempts es"
  "attempts (Progress a st r # es) = attempts es"
  "attempts [] = 0"
  by (simp_all add: attempts_def)

lemma attempts_append [simp]: "attempts (xs @ ys) = attempts xs + attempts ys"
  by (simp add: attempts_def)

lemma waits_append [simp]: "waits (xs @ ys) = waits xs @ waits ys"
  by (induction xs rule: waits.induct) simp_all

lemma delay_io [simp]: "delay s = [Timer (s * 1000)]"
  by (simp add: delay_def)


lemma loop_other:
  assumes other: "\<forall>i. int i < N \<longrightarrow> (\<exists>e. ax i = Inl e \<and> error_status e \<noteq> Some 500)"
  shows "int i < N \<Longrightarrow>
         fst (RequestHandler_loop ax c N b i) = None \<and>
         io (snd (RequestHandler_loop ax c N b i)) =
           concat (map (\<lambda>k. [Http c, Timer 2000]) [i..<nat N - 1]) @ [Http c]"
proof (induction "nat N - 1 - i" arbitrary: i)
  case 0
  then have last: "int i = N - 1" by linarith
  from other 0 obtain e where e: "ax i = Inl e" "error_status e \<noteq> Some 500" by blast
  have "[i..<nat N - 1] = []" using last by simp
  then show ?case using e last
    by (simp add: RequestHandler_loop.simps [of ax c N b i])
next
  case (Suc d)
  then have notlast: "int i \<noteq> N - 1" and lt: "int (i + 1) < N" and d: "d = nat N - 1 - (i + 1)"
    by linarith+
  from other Suc.prems obtain e where e: "ax i = Inl e" "error_status e \<noteq> Some 500" by blast
  have up: "[i..<nat N - 1] = i # [i + 1..<nat N - 1]"
    using Suc.hyps(2) by (simp add: upt_conv_Cons)
  from Suc.hyps(1) [OF d lt] show ?case using e notlast Suc.prems up
    by (simp add: RequestHandler_loop.simps [of ax c N b i])
qed

lemma loop_done: "\<not> int i < N \<Longrightarrow> RequestHandler_loop ax c N b i = (None, [])"
  by (simp add: RequestHandler_loop.simps [of ax c N b i])

lemma loop_Some:
  "fst (RequestHandler_loop ax c N b i) = Some r \<Longrightarrow>
     \<exists>k. i \<le> k \<and> int k < N \<and> ax k = Inr r \<and> (\<forall>j. i \<le> j \<and> j < k \<longrightarrow> isl (ax j)) \<and>
         attempts (snd (RequestHandler_loop ax c N b i)) = k - i + 1 \<and>
         (\<exists>pre. snd (RequestHandler_loop ax c N b i) = pre @ [Http c, Log Verbose ''request succeeded''])"
proof (induction "nat (N - int i)" arbitrary: i)
  case 0
  then have "\<not> int i < N" by simp
  with 0 show ?case by (simp add: loop_done)
next
  case (Suc d)
  then have lt: "int i < N" and d: "d = nat (N - int (i + 1))" by linarith+
  show ?case
  proof (cases "ax i")
    case (Inr res)
    with lt Suc.prems have "res = r"
      by (simp add: RequestHandler_loop.simps [of ax c N b i])
    with Inr lt have "i \<le> i \<and> int i < N \<and> ax i = Inr r \<and> (\<forall>j. i \<le> j \<and> j < i \<longrightarrow> isl (ax j)) \<and>
         attempts (snd (RequestHandler_loop ax c N b i)) = i - i + 1 \<and>
         (\<exists>pre. snd (RequestHandler_loop ax c N b i) = pre @ [Http c, Log Verbose ''request succeeded''])"
      by (auto simp add: RequestHandler_loop.simps [of ax c N b i])
    then show ?thesis by blast
  next
    case (Inl e)
    let ?rest = "RequestHandler_loop ax c N b (i + 1)"
    from Inl lt Suc.prems have notlast: "int i \<noteq> N - 1"
      by (auto simp add: RequestHandler_loop.simps [of ax c N b i] Let_def split: if_splits)
    from Inl lt Suc.prems notlast have rest: "fst ?rest = Some r"
      by (auto simp add: RequestHandler_loop.simps [of ax c N b i] Let_def split: if_splits)
    from Suc.hyps(1) [OF d rest] obtain k pre where k:
      "i + 1 \<le> k" "int k < N" "ax k = Inr r" "\<forall>j. i + 1 \<le> j \<and> j < k \<longrightarrow> isl (ax j)"
      "attempts (snd ?rest) = k - (i + 1) + 1" "snd ?rest = pre @ [Http c, Log Verbose ''request succeeded'']"
      by blast
    have all: "\<forall>j. i \<le> j \<and> j < k \<longrightarrow> isl (ax j)"
    proof (intro allI impI)
      fix j assume "i \<le> j \<and> j < k"
      then have "j = i \<or> (i + 1 \<le> j \<and> j < k)" by linarith
      then show "isl (ax j)" using Inl k(4) by auto
    qed
    have att: "attempts (snd (RequestHandler_loop ax c N b i)) = k - i + 1"
      using Inl lt notlast k(1) k(5)
      by (simp add: RequestHandler_loop.simps [of ax c N b i] Let_def)
    have "\<exists>pre'. snd (RequestHandler_loop ax c N b i) = pre' @ [Http c, Log Verbose ''request succeeded'']"
      using Inl lt notlast k(6)
      by (simp add: RequestHandler_loop.simps [of ax c N b i] Let_def)
    with all att k show ?thesis by (intro exI [of _ k]) simp
  qed
qed

lemma loop_None:
  "fst (RequestHandler_loop ax c N b i) = None \<Longrightarrow>
     (\<forall>j. i \<le> j \<and> int j < N \<longrightarrow> isl (ax j)) \<and>
     attempts (snd (RequestHandler_loop ax c N b i)) = nat (N - int i)"
proof (induction "nat (N - int i)" arbitrary: i)
  case 0
  then have "\<not> int i < N" by simp
  then show ?case by (auto simp add: loop_done)
next
  case (Suc d)
  then have lt: "int i < N" and d: "d = nat (N - int (i + 1))" by linarith+
  from lt Suc.prems obtain e where e: "ax i = Inl e"
    by (cases "ax i") (simp_all add: RequestHandler_loop.simps [of ax c N b i])
  show ?case
  proof (cases "int i = N - 1")
    case True
    have "\<forall>j. i \<le> j \<and> int j < N \<longrightarrow> isl (ax j)"
    proof (intro allI impI)
      fix j assume "i \<le> j \<and> int j < N"
      with True have "j = i" by linarith
      with e show "isl (ax j)" by simp
    qed
    moreover have "attempts (snd (RequestHandler_loop ax c N b i)) = nat (N - int i)"
      using e True lt
      by (auto simp add: RequestHandler_loop.simps [of ax c N b i] Let_def)
    ultimately show ?thesis by simp
  next
    case False
    let ?rest = "RequestHandler_loop ax c N b (i + 1)"
    from e lt Suc.prems False have rest: "fst ?rest = None"
      by (auto simp add: RequestHandler_loop.simps [of ax c N b i] Let_def split: if_splits)
    note ih = Suc.hyps(1) [OF d rest]
    have all: "\<forall>j. i \<le> j \<and> int j < N \<longrightarrow> isl (ax j)"
    proof (intro allI impI)
      fix j assume "i \<le> j \<and> int j < N"
      then have "j = i \<or> (i + 1 \<le> j \<and> int j < N)" by linarith
      then show "isl (ax j)" using e ih by auto
    qed
    have "attempts (snd (RequestHandler_loop ax c N b i)) = nat (N - int i)"
      using e lt False ih
      by (auto simp add: RequestHandler_loop.simps [of ax c N b i] Let_def)
    with all show ?thesis by simp
  qed
qed

lemma attempts_io [simp]: "attempts (io es) = attempts es"
  by (induction es rule: waits.induct) (simp_all add: io_def attempts_def)

lemma waits_io [simp]: "waits (io es) = waits es"
  by (induction es rule: waits.induct) (simp_all add: io_def)

lemma attempts_schedule:
  "attempts (concat (map (\<lambda>k. [Http c, Timer (f k)]) ks) @ [Http c]) = length ks + 1"
  by (induction ks) simp_all

lemma waits_schedule:
  "waits (concat (map (\<lambda>k. [Http c, Timer (f k)]) ks) @ [Http c]) = map f ks"
  by (induction ks) simp_all



text \<open>
  Claim C2. For every \<open>retries = N \<ge> 1\<close> and every transport whose every attempt throws an
  error whose status is not exactly 500 (no response at all, or another status), the
  executor returns failure, makes exactly \<open>N\<close> calls and arms a timer of 2000 milliseconds
  between consecutive calls, whatever \<open>backoffMs\<close> is.
\<close>

theorem makeRequest_always_other:
  assumes "1 \<le> N"
    and "\<forall>i. int i < N \<longrightarrow> (\<exists>e. ax i = Inl e \<and> error_status e \<noteq> Some 500)"
  shows "fst (RequestHandler_makeRequest ax c N b) = None \<and>
         attempts (snd (RequestHandler_makeRequest ax c N b)) = nat N \<and>
         io (snd (RequestHandler_makeRequest ax c N b)) =
           concat (map (\<lambda>k. [Http c, Timer 2000]) [0..<nat N - 1]) @ [Http c] \<and>
         waits (snd (RequestHandler_makeRequest ax c N b)) = replicate (nat N - 1) 2000"
proof -
  let ?es = "snd (RequestHandler_makeRequest ax c N b)"
  let ?sched = "concat (map (\<lambda>k. [Http c, Timer 2000]) [0..<nat N - 1]) @ [Http c]"
  from assms(1) have lt: "int 0 < N" by simp
  from loop_other [OF assms(2) lt, of c b]
  have res: "fst (RequestHandler_makeRequest ax c N b) = None" and sched: "io ?es = ?sched"
    by (simp_all add: RequestHandler_makeRequest_def)
  have "attempts ?es = attempts (io ?es)" by simp
  also have "\<dots> = nat N" using assms(1) by (simp only: sched attempts_schedule) simp
  finally have att: "attempts ?es = nat N" .
  have "waits ?es = waits (io ?es)" by simp
  then have "waits ?es = map (\<lambda>k. 2000) [0..<nat N - 1]"
    by (simp only: sched waits_schedule)
  then have w: "waits ?es = replicate (nat N - 1) 2000"
    by (simp add: map_replicate_const)
  from res att sched w show ?thesis by simp
qed

theorem makeRequest_always_other_witness:
  "(1::int) \<le> 3 \<and>
   fst (RequestHandler_makeRequest (\<lambda>i. if i = 1 then Inl (HttpError (Some 503)) else Inl (HttpError None)) config0 3 2000) = None \<and>
   attempts (snd (RequestHandler_makeRequest (\<lambda>i. if i = 1 then Inl (HttpError (Some 503)) else Inl (HttpError None)) config0 3 2000)) = 3 \<and>
   waits (snd (RequestHandler_makeRequest (\<lambda>i. if i = 1 then Inl (HttpError (Some 503)) else Inl (HttpError None)) config0 3 2000)) = [2000, 2000]"
proof -
  let ?ax = "\<lambda>i::nat. if i = 1 then Inl (HttpError (Some 503)) else (Inl (HttpError None) :: js_error + response)"
  have h: "\<forall>i. int i < 3 \<longrightarrow> (\<exists>e. ?ax i = Inl e \<and> error_status e \<noteq> Some 500)"
    by simp
  have one: "(1::int) \<le> 3" by simp
  have r: "replicate (nat 3 - 1) (2000::rat) = [2000, 2000]" by (simp add: numeral_eq_Suc)
  from makeRequest_always_other [OF one h, of config0 2000] r show ?thesis by simp
qed

lemma axios_Inr:
  "validateStatus c = (\<lambda>status. status < 500) \<Longrightarrow>
   axios c x = Inr r \<longleftrightarrow> x = Reply r \<and> status r < 500"
  by (cases x) (auto simp add: axios_def)

lemma axios_isl:
  "validateStatus c = (\<lambda>status. status < 500) \<Longrightarrow> isl (axios c x) \<longleftrightarrow> \<not> delivered x"
  by (cases x) (auto simp add: axios_def)

text \<open>
  Claim C3. Under the session's \<open>validateStatus\<close> (status below 500), for every retry
  count, backoff and behaviour of the network: the executor returns a response only if
  that response was the reply of some attempt \<open>k\<close> within the budget, had a status below
  500, and no earlier attempt was delivered; it then has made exactly \<open>k + 1\<close> calls and
  nothing but the success log line follows the last call. It returns failure only if no
  attempt within the budget was delivered, after exactly \<open>retries\<close> calls. Conversely the
  first delivered reply within the budget is what is returned, whatever its status below
  500 is.
\<close>

theorem makeRequest_outcome:
  assumes vs: "validateStatus c = (\<lambda>status. status < 500)"
  shows "(\<forall>r. fst (RequestHandler_makeRequest (\<lambda>i. axios c (net i)) c N b) = Some r \<longrightarrow>
            (\<exists>k. int k < N \<and> net k = Reply r \<and> status r < 500 \<and> (\<forall>j<k. \<not> delivered (net j)) \<and>
                 attempts (snd (RequestHandler_makeRequest (\<lambda>i. axios c (net i)) c N b)) = k + 1 \<and>
                 (\<exists>pre. snd (RequestHandler_makeRequest (\<lambda>i. axios c (net i)) c N b) =
                    pre @ [Http c, Log Verbose ''request succeeded'']))) \<and>
         (fst (RequestHandler_makeRequest (\<lambda>i. axios c (net i)) c N b) = None \<longrightarrow>
            (\<forall>j. int j < N \<longrightarrow> \<not> delivered (net j)) \<and>
            attempts (snd (RequestHandler_makeRequest (\<lambda>i. axios c (net i)) c N b)) = nat N) \<and>
         (\<forall>k r. int k < N \<and> net k = Reply r \<and> status r < 500 \<and> (\<forall>j<k. \<not> delivered (net j)) \<longrightarrow>
            fst (RequestHandler_makeRequest (\<lambda>i. axios c (net i)) c N b) = Some r)"
proof -
  let ?ax = "\<lambda>i. axios c (net i)"
  let ?R = "RequestHandler_makeRequest ?ax c N b"
  have some: "\<exists>k. int k < N \<and> net k = Reply r \<and> status r < 500 \<and> (\<forall>j<k. \<not> delivered (net j)) \<and>
                 attempts (snd ?R) = k + 1 \<and> (\<exists>pre. snd ?R = pre @ [Http c, Log Verbose ''request succeeded''])"
    if "fst ?R = Some r" for r
  proof -
    from that have "fst (RequestHandler_loop ?ax c N b 0) = Some r"
      by (simp add: RequestHandler_makeRequest_def)
    from loop_Some [OF this] obtain k pre where k:
      "int k < N" "axios c (net k) = Inr r" "\<forall>j. 0 \<le> j \<and> j < k \<longrightarrow> isl (axios c (net j))"
      "attempts (snd ?R) = k - 0 + 1" "snd ?R = pre @ [Http c, Log Verbose ''request succeeded'']"
      unfolding RequestHandler_makeRequest_def by blast
    from k(2) have "net k = Reply r" "status r < 500" by (simp_all add: axios_Inr [OF vs])
    moreover from k(3) have "\<forall>j<k. \<not> delivered (net j)" by (simp add: axios_isl [OF vs])
    ultimately show ?thesis using k(1) k(4) k(5) by (intro exI [of _ k]) simp
  qed
  have none: "(\<forall>j. int j < N \<longrightarrow> \<not> delivered (net j)) \<and> attempts (snd ?R) = nat N"
    if "fst ?R = None"
  proof -
    from that have "fst (RequestHandler_loop ?ax c N b 0) = None"
      by (simp add: RequestHandler_makeRequest_def)
    from loop_None [OF this] show ?thesis
      by (simp add: RequestHandler_makeRequest_def axios_isl [OF vs])
  qed
  have first: "fst ?R = Some r"
    if "int k < N \<and> net k = Reply r \<and> status r < 500 \<and> (\<forall>j<k. \<not> delivered (net j))" for k r
  proof (cases "fst ?R")
    case None
    from none [OF None] that show ?thesis by auto
  next
    case (Some r')
    from some [OF Some] obtain k' where k':
      "int k' < N" "net k' = Reply r'" "status r' < 500" "\<forall>j<k'. \<not> delivered (net j)"
      by blast
    have "\<not> k' < k" using that k'(2) k'(3) by auto
    moreover have "\<not> k < k'" using that k'(4) by auto
    ultimately have "k' = k" by simp
    with that k'(2) Some show ?thesis by simp
  qed
  from some none first show ?thesis by blast
qed

theorem makeRequest_outcome_witness:
  "fst (RequestHandler_makeRequest (\<lambda>i. axios config0 (net0 i)) config0 30 2000) =
     Some \<lparr>status = 404, data = JObj [(''message'', JStr ''not found'')]\<rparr> \<and>
   attempts (snd (RequestHandler_makeRequest (\<lambda>i. axios config0 (net0 i)) config0 30 2000)) = 3"
proof -
  have vs: "validateStatus config0 = (\<lambda>status. status < 500)" by (simp add: config0_def)
  let ?r = "\<lparr>status = 404, data = JObj [(''message'', JStr ''not found'')]\<rparr>"
  have first: "int 2 < 30 \<and> net0 2 = Reply ?r \<and> status ?r < 500 \<and> (\<forall>j<2. \<not> delivered (net0 j))"
    by (simp add: net0_def less_Suc_eq numeral_2_eq_2)
  note t = makeRequest_outcome [OF vs, of net0 30 2000]
  from t first have res: "fst (RequestHandler_makeRequest (\<lambda>i. axios config0 (net0 i)) config0 30 2000) = Some ?r"
    by blast
  with t obtain k where k: "net0 k = Reply ?r" "\<forall>j<k. \<not> delivered (net0 j)"
    "attempts (snd (RequestHandler_makeRequest (\<lambda>i. axios config0 (net0 i)) config0 30 2000)) = k + 1"
    by blast
  from k(1) have "k \<noteq> 0" "k \<noteq> 1" by (auto simp add: net0_def split: if_splits)
  moreover have "delivered (net0 2)" by (simp add: net0_def)
  with k(2) have "\<not> 2 < k" by blast
  ultimately have "k = 2" by linarith
  with k(3) have "attempts (snd (RequestHandler_makeRequest (\<lambda>i. axios config0 (net0 i)) config0 30 2000)) = 3"
    by simp
  with res show ?thesis by simp
qed

section \<open>Properties of the wallet session\<close>

lemmas act_defs = ret_def throw_def js_def total_def bind_def seq_def try_catch_def logger_def
  logger_progress_def await_delay_def

lemma makeRequest_first_reply:
  assumes "net 0 = Reply r" and "validateStatus (axiosConfig this) (status r)" and "0 < retryCount this"
  shows "makeRequest this m u d hs net =
           (Some r, [Log Verbose ''attempting request'', Http (finalConfig this m u d hs),
                     Log Verbose ''request succeeded''])"
  using assms
  by (simp add: makeRequest_def RequestHandler_makeRequest_def finalConfig_def axios_def
        RequestHandler_loop.simps [of _ _ _ _ 0])

lemma makeRequest_session0:
  "st < 500 \<Longrightarrow> fst (makeRequest session0 m u d hs (always st body)) = Some \<lparr>status = st, data = body\<rparr>"
  by (simp add: makeRequest_first_reply [of _ "\<lparr>status = st, data = body\<rparr>"] always_def session0_def)

lemma get_total: "v \<noteq> JUndefined \<Longrightarrow> v \<noteq> JNull \<Longrightarrow> \<exists>w. get v k = Inr w"
  by (cases v) (auto split: option.splits)

lemma truthy_get: "truthy v \<Longrightarrow> \<exists>w. get v k = Inr w"
  by (cases v) (auto split: option.splits)

text \<open>
  Claim C4, as the code has it. \<open>checkNodeStatus\<close> returns false when the executor returns
  failure and when the body is falsy. When the body's \<open>data\<close> member is there (neither
  \<open>undefined\<close> nor \<open>null\<close>), it returns true if and only if \<open>data.startTimestamp\<close> is not
  \<open>null\<close>, and false if and only if it is \<open>null\<close>; the comparison is \<open>!== null\<close>, so a
  \<open>startTimestamp\<close> that is absent counts as running and the result is true.
\<close>

theorem checkNodeStatus_strict_null:
  "(status_response this net = None \<longrightarrow> fst (checkNodeStatus this net) = Inr False) \<and>
   (\<forall>r. status_response this net = Some r \<and> \<not> truthy (data r) \<longrightarrow>
        fst (checkNodeStatus this net) = Inr False) \<and>
   (\<forall>r d. status_response this net = Some r \<and> truthy (data r) \<and> get (data r) ''data'' = Inr d \<and>
          d \<noteq> JUndefined \<and> d \<noteq> JNull \<longrightarrow>
        (fst (checkNodeStatus this net) = Inr True \<longleftrightarrow> get d ''startTimestamp'' \<noteq> Inr JNull) \<and>
        (fst (checkNodeStatus this net) = Inr False \<longleftrightarrow> get d ''startTimestamp'' = Inr JNull)) \<and>
   (\<forall>r kvs. status_response this net = Some r \<and> truthy (data r) \<and>
          get (data r) ''data'' = Inr (JObj kvs) \<and> map_of kvs ''startTimestamp'' = None \<longrightarrow>
        fst (checkNodeStatus this net) = Inr True)"
proof (intro conjI allI impI)
  assume "status_response this net = None"
  then show "fst (checkNodeStatus this net) = Inr False"
    by (simp add: checkNodeStatus_def act_defs)
next
  fix r assume "status_response this net = Some r \<and> \<not> truthy (data r)"
  then show "fst (checkNodeStatus this net) = Inr False"
    by (simp add: checkNodeStatus_def act_defs)
next
  fix r d
  assume a: "status_response this net = Some r \<and> truthy (data r) \<and> get (data r) ''data'' = Inr d \<and>
          d \<noteq> JUndefined \<and> d \<noteq> JNull"
  then obtain ts where ts: "get d ''startTimestamp'' = Inr ts" using get_total by blast
  from a ts show "fst (checkNodeStatus this net) = Inr True \<longleftrightarrow> get d ''startTimestamp'' \<noteq> Inr JNull"
    by (simp add: checkNodeStatus_def act_defs)
  from a ts show "fst (checkNodeStatus this net) = Inr False \<longleftrightarrow> get d ''startTimestamp'' = Inr JNull"
    by (simp add: checkNodeStatus_def act_defs)
next
  fix r kvs
  assume "status_response this net = Some r \<and> truthy (data r) \<and>
          get (data r) ''data'' = Inr (JObj kvs) \<and> map_of kvs ''startTimestamp'' = None"
  then show "fst (checkNodeStatus this net) = Inr True"
    by (simp add: checkNodeStatus_def act_defs)
qed

theorem checkNodeStatus_strict_null_witness:
  "fst (checkNodeStatus session0
          (always 200 (JObj [(''data'', JObj [(''startTimestamp'', JNum 1700000000000)])]))) = Inr True \<and>
   fst (checkNodeStatus session0
          (always 200 (JObj [(''data'', JObj [(''startTimestamp'', JNull)])]))) = Inr False \<and>
   fst (checkNodeStatus session0 (always 200 (JStr []))) = Inr False \<and>
   fst (checkNodeStatus session0 (\<lambda>i. NoReply)) = Inr False"
proof -
  let ?up = "JObj [(''data'', JObj [(''startTimestamp'', JNum 1700000000000)])]"
  let ?down = "JObj [(''data'', JObj [(''startTimestamp'', JNull)])]"
  have up: "status_response session0 (always 200 ?up) = Some \<lparr>status = 200, data = ?up\<rparr>"
    and down: "status_response session0 (always 200 ?down) = Some \<lparr>status = 200, data = ?down\<rparr>"
    and empty: "status_response session0 (always 200 (JStr [])) = Some \<lparr>status = 200, data = JStr []\<rparr>"
    by (simp_all add: makeRequest_session0)
  have "\<forall>i. int i < retryCount session0 \<longrightarrow>
          (\<exists>e. axios c (NoReply) = Inl e \<and> error_status e \<noteq> Some 500)" for c
    by (simp add: axios_def)
  from loop_other [OF this, of 0] have none: "status_response session0 (\<lambda>i. NoReply) = None"
    by (simp add: makeRequest_def RequestHandler_makeRequest_def session0_def)
  note t = checkNodeStatus_strict_null
  from t [of session0 "always 200 ?up"] up
  have 1: "fst (checkNodeStatus session0 (always 200 ?up)) = Inr True" by simp
  from t [of session0 "always 200 ?down"] down
  have 2: "fst (checkNodeStatus session0 (always 200 ?down)) = Inr False" by simp
  from t [of session0 "always 200 (JStr [])"] empty
  have 3: "fst (checkNodeStatus session0 (always 200 (JStr []))) = Inr False" by simp
  from t [of session0 "\<lambda>i. NoReply"] none
  have 4: "fst (checkNodeStatus session0 (\<lambda>i. NoReply)) = Inr False" by simp
  from 1 2 3 4 show ?thesis by simp
qed

text \<open>
  The claim as stated fails where the field is absent: for the body
  \<open>{"data": {}}\<close> the result is true, not false.
\<close>

theorem checkNodeStatus_absent_counterexample:
  "status_response session0 (always 200 (JObj [(''data'', JObj [])])) =
     Some \<lparr>status = 200, data = JObj [(''data'', JObj [])]\<rparr> \<and>
   get_opt (JObj []) ''startTimestamp'' = JUndefined \<and>
   fst (checkNodeStatus session0 (always 200 (JObj [(''data'', JObj [])]))) = Inr True"
  by (simp add: checkNodeStatus_def act_defs makeRequest_session0)


lemma dailyCheckIn_returns: "\<exists>b. fst (dailyCheckIn lib this t net) = Inr b"
  by (auto simp add: dailyCheckIn_def act_defs split: sum.splits option.splits)










lemma dailyCheckIn_delivered:
  assumes "daily_signature lib this t = Inr sg"
    and "fst (daily_response this sg t net) = Some r" and "truthy (data r)"
  shows "dailyCheckIn lib this t net =
           (case get (data r) ''statusCode'' of
              Inl e \<Rightarrow> (Inr False, snd (daily_response this sg t net) @ [Log Error ''error during daily check-in''])
            | Inr statusCode \<Rightarrow>
                if statusCode = JNum 405 then
                  (case get (data r) ''message'' of
                     Inr (JStr m) \<Rightarrow>
                       (Inr True, snd (daily_response this sg t net) @
                          [Log Info (''daily check-in already done, come back after '' @
                             (case cooldown_match m of Some g \<Rightarrow> trim g | None \<Rightarrow> ''unknown time''))])
                   | _ \<Rightarrow> (Inr False, snd (daily_response this sg t net) @ [Log Error ''error during daily check-in'']))
                else (Inr True, snd (daily_response this sg t net) @ [Log Info ''daily check-in succeeded'']))"
  using assms
  by (auto simp add: dailyCheckIn_def act_defs message_match_def split: sum.splits jsval.splits)

text \<open>
  Claim C6, as the code has it. With a delivered response whose body is truthy,
  \<open>dailyCheckIn\<close> returns true and logs success when the body's \<open>statusCode\<close> is not 405;
  when it is 405 and the body's \<open>message\<close> is a string, it returns true and logs the
  cooldown, the trimmed capture of \<^verbatim>\<open>/after\s+([^!]+)!/\<close> in the message or the
  fallback text when there is no match; when it is 405 and the \<open>message\<close> is not a string,
  the call of \<open>match\<close> raises, the handler logs the error and the result is false. The
  result is also false when signing raises (no request is made then), when the executor
  returns failure and when the body is falsy.
\<close>

theorem dailyCheckIn_outcomes:
  "(\<forall>e. daily_signature lib this t = Inl e \<longrightarrow>
        dailyCheckIn lib this t net = (Inr False, [Log Error ''error during daily check-in''])) \<and>
   (\<forall>sg. daily_signature lib this t = Inr sg \<and> fst (daily_response this sg t net) = None \<longrightarrow>
        fst (dailyCheckIn lib this t net) = Inr False) \<and>
   (\<forall>sg r. daily_signature lib this t = Inr sg \<and> fst (daily_response this sg t net) = Some r \<and>
        \<not> truthy (data r) \<longrightarrow>
        fst (dailyCheckIn lib this t net) = Inr False) \<and>
   (\<forall>sg r. daily_signature lib this t = Inr sg \<and> fst (daily_response this sg t net) = Some r \<and>
        truthy (data r) \<and> get (data r) ''statusCode'' \<noteq> Inr (JNum 405) \<longrightarrow>
        dailyCheckIn lib this t net =
          (Inr True, snd (daily_response this sg t net) @ [Log Info ''daily check-in succeeded''])) \<and>
   (\<forall>sg r m. daily_signature lib this t = Inr sg \<and> fst (daily_response this sg t net) = Some r \<and>
        truthy (data r) \<and> get (data r) ''statusCode'' = Inr (JNum 405) \<and>
        get (data r) ''message'' = Inr (JStr m) \<longrightarrow>
        dailyCheckIn lib this t net =
          (Inr True, snd (daily_response this sg t net) @
             [Log Info (''daily check-in already done, come back after '' @
                (case cooldown_match m of Some g \<Rightarrow> trim g | None \<Rightarrow> ''unknown time''))])) \<and>
   (\<forall>sg r v. daily_signature lib this t = Inr sg \<and> fst (daily_response this sg t net) = Some r \<and>
        truthy (data r) \<and> get (data r) ''statusCode'' = Inr (JNum 405) \<and>
        get (data r) ''message'' = Inr v \<and> (\<forall>m. v \<noteq> JStr m) \<longrightarrow>
        dailyCheckIn lib this t net =
          (Inr False, snd (daily_response this sg t net) @ [Log Error ''error during daily check-in'']))"
proof (intro conjI allI impI)
  fix e assume "daily_signature lib this t = Inl e"
  then show "dailyCheckIn lib this t net = (Inr False, [Log Error ''error during daily check-in''])"
    by (simp add: dailyCheckIn_def act_defs)
next
  fix sg assume "daily_signature lib this t = Inr sg \<and> fst (daily_response this sg t net) = None"
  then show "fst (dailyCheckIn lib this t net) = Inr False"
    by (simp add: dailyCheckIn_def act_defs)
next
  fix sg r
  assume "daily_signature lib this t = Inr sg \<and> fst (daily_response this sg t net) = Some r \<and>
        \<not> truthy (data r)"
  then show "fst (dailyCheckIn lib this t net) = Inr False"
    by (simp add: dailyCheckIn_def act_defs)
next
  fix sg r
  assume a: "daily_signature lib this t = Inr sg \<and> fst (daily_response this sg t net) = Some r \<and>
        truthy (data r) \<and> get (data r) ''statusCode'' \<noteq> Inr (JNum 405)"
  then obtain c where c: "get (data r) ''statusCode'' = Inr c" using truthy_get by blast
  with a have "c \<noteq> JNum 405" by simp
  with a c dailyCheckIn_delivered [of lib this t sg net r]
  show "dailyCheckIn lib this t net =
          (Inr True, snd (daily_response this sg t net) @ [Log Info ''daily check-in succeeded''])"
    by simp
next
  fix sg r m
  assume a: "daily_signature lib this t = Inr sg \<and> fst (daily_response this sg t net) = Some r \<and>
        truthy (data r) \<and> get (data r) ''statusCode'' = Inr (JNum 405) \<and>
        get (data r) ''message'' = Inr (JStr m)"
  with dailyCheckIn_delivered [of lib this t sg net r]
  show "dailyCheckIn lib this t net =
          (Inr True, snd (daily_response this sg t net) @
             [Log Info (''daily check-in already done, come back after '' @
                (case cooldown_match m of Some g \<Rightarrow> trim g | None \<Rightarrow> ''unknown time''))])"
    by simp
next
  fix sg r v
  assume a: "daily_signature lib this t = Inr sg \<and> fst (daily_response this sg t net) = Some r \<and>
        truthy (data r) \<and> get (data r) ''statusCode'' = Inr (JNum 405) \<and>
        get (data r) ''message'' = Inr v \<and> (\<forall>m. v \<noteq> JStr m)"
  with dailyCheckIn_delivered [of lib this t sg net r]
  show "dailyCheckIn lib this t net =
          (Inr False, snd (daily_response this sg t net) @ [Log Error ''error during daily check-in''])"
    by (cases v) simp_all
qed

theorem dailyCheckIn_outcomes_witness:
  "fst (dailyCheckIn lib0 session0 1700000000000 (always 405 claimed_body)) = Inr True \<and>
   last (snd (dailyCheckIn lib0 session0 1700000000000 (always 405 claimed_body))) =
     Log Info ''daily check-in already done, come back after 11 hours 5 minutes'' \<and>
   fst (dailyCheckIn lib0 session0 1700000000000 (always 200 (JObj [(''data'', JNull)]))) = Inr True \<and>
   fst (dailyCheckIn lib0 session0 1700000000000 (always 405 (JObj [(''statusCode'', JNum 405), (''message'', JNum 7)]))) = Inr False \<and>
   fst (dailyCheckIn lib_nosign session0 1700000000000 (always 200 (JObj []))) = Inr False"
proof -
  note t = dailyCheckIn_outcomes
  let ?ts = "1700000000000 :: nat"
  let ?sg = "''signed:'' @ ''I am claiming my daily node point for '' @ address (this_wallet session0) @ '' at '' @ dec ?ts"
  let ?m = "''Daily point already claimed, come back after 11 hours 5 minutes! ''"
  let ?odd = "JObj [(''statusCode'', JNum 405), (''message'', JNum 7)]"
  let ?ok = "JObj [(''data'', JNull)]"
  have sg: "daily_signature lib0 session0 ?ts = Inr ?sg"
    by (simp add: lib0_def)
  have nosg: "daily_signature lib_nosign session0 ?ts = Inl (Thrown ''signing failed'')"
    by (simp add: lib_nosign_def)
  have resp: "fst (daily_response session0 ?sg ?ts (always st body)) = Some \<lparr>status = st, data = body\<rparr>"
    if "st < 500" for st body
    using that by (rule makeRequest_session0)
  have cm: "cooldown_match ?m = Some ''11 hours 5 minutes''"
    by code_simp
  have tr: "trim ''11 hours 5 minutes'' = ''11 hours 5 minutes''"
    by code_simp
  have pre1: "daily_signature lib0 session0 ?ts = Inr ?sg \<and>
      fst (daily_response session0 ?sg ?ts (always 405 claimed_body)) = Some \<lparr>status = 405, data = claimed_body\<rparr> \<and>
      truthy (data \<lparr>status = 405, data = claimed_body\<rparr>) \<and>
      get (data \<lparr>status = 405, data = claimed_body\<rparr>) ''statusCode'' = Inr (JNum 405) \<and>
      get (data \<lparr>status = 405, data = claimed_body\<rparr>) ''message'' = Inr (JStr ?m)"
    using sg resp [of 405 claimed_body] by (simp add: claimed_body_def)
  from t [of lib0 session0 ?ts "always 405 claimed_body", THEN conjunct2, THEN conjunct2,
      THEN conjunct2, THEN conjunct2, THEN conjunct1, rule_format, OF pre1]
  have "dailyCheckIn lib0 session0 ?ts (always 405 claimed_body) =
          (Inr True, snd (daily_response session0 ?sg ?ts (always 405 claimed_body)) @
             [Log Info (''daily check-in already done, come back after '' @
                (case cooldown_match ?m of Some g \<Rightarrow> trim g | None \<Rightarrow> ''unknown time''))])"
    .
  then have 1: "fst (dailyCheckIn lib0 session0 ?ts (always 405 claimed_body)) = Inr True"
    and 2: "last (snd (dailyCheckIn lib0 session0 ?ts (always 405 claimed_body))) =
              Log Info ''daily check-in already done, come back after 11 hours 5 minutes''"
    unfolding cm option.case tr by simp_all
  have pre3: "daily_signature lib0 session0 ?ts = Inr ?sg \<and>
      fst (daily_response session0 ?sg ?ts (always 200 ?ok)) = Some \<lparr>status = 200, data = ?ok\<rparr> \<and>
      truthy (data \<lparr>status = 200, data = ?ok\<rparr>) \<and>
      get (data \<lparr>status = 200, data = ?ok\<rparr>) ''statusCode'' \<noteq> Inr (JNum 405)"
    using sg resp [of 200 ?ok] by simp
  from t [of lib0 session0 ?ts "always 200 ?ok", THEN conjunct2, THEN conjunct2,
      THEN conjunct2, THEN conjunct1, rule_format, OF pre3]
  have "dailyCheckIn lib0 session0 ?ts (always 200 ?ok) =
          (Inr True, snd (daily_response session0 ?sg ?ts (always 200 ?ok)) @ [Log Info ''daily check-in succeeded''])"
    .
  then have 3: "fst (dailyCheckIn lib0 session0 ?ts (always 200 ?ok)) = Inr True"
    by simp
  have pre4: "daily_signature lib0 session0 ?ts = Inr ?sg \<and>
      fst (daily_response session0 ?sg ?ts (always 405 ?odd)) = Some \<lparr>status = 405, data = ?odd\<rparr> \<and>
      truthy (data \<lparr>status = 405, data = ?odd\<rparr>) \<and>
      get (data \<lparr>status = 405, data = ?odd\<rparr>) ''statusCode'' = Inr (JNum 405) \<and>
      get (data \<lparr>status = 405, data = ?odd\<rparr>) ''message'' = Inr (JNum 7) \<and> (\<forall>m. JNum 7 \<noteq> JStr m)"
    using sg resp [of 405 ?odd] by simp
  from t [of lib0 session0 ?ts "always 405 ?odd", THEN conjunct2, THEN conjunct2,
      THEN conjunct2, THEN conjunct2, THEN conjunct2, rule_format, OF pre4]
  have "dailyCheckIn lib0 session0 ?ts (always 405 ?odd) =
          (Inr False, snd (daily_response session0 ?sg ?ts (always 405 ?odd)) @ [Log Error ''error during daily check-in''])"
    .
  then have 4: "fst (dailyCheckIn lib0 session0 ?ts (always 405 ?odd)) = Inr False"
    by simp
  from t [of lib_nosign session0 ?ts "always 200 (JObj [])", THEN conjunct1, rule_format, OF nosg]
  have "dailyCheckIn lib_nosign session0 ?ts (always 200 (JObj [])) = (Inr False, [Log Error ''error during daily check-in''])"
    .
  then have 5: "fst (dailyCheckIn lib_nosign session0 ?ts (always 200 (JObj []))) = Inr False"
    by simp
  from 1 2 3 4 5 show ?thesis by simp
qed

text \<open>
  The claim as stated fails: the body \<open>{"statusCode": 405}\<close> is delivered and truthy, and
  the result is false.
\<close>

theorem dailyCheckIn_body_counterexample:
  "always 405 (JObj [(''statusCode'', JNum 405)]) 0 =
     Reply \<lparr>status = 405, data = JObj [(''statusCode'', JNum 405)]\<rparr> \<and>
   truthy (JObj [(''statusCode'', JNum 405)]) \<and>
   attempts (snd (dailyCheckIn lib0 session0 1700000000000 (always 405 (JObj [(''statusCode'', JNum 405)])))) = 1 \<and>
   fst (dailyCheckIn lib0 session0 1700000000000 (always 405 (JObj [(''statusCode'', JNum 405)]))) = Inr False"
proof -
  have "makeRequest session0 m u d hs (always 405 (JObj [(''statusCode'', JNum 405)])) =
          (Some \<lparr>status = 405, data = JObj [(''statusCode'', JNum 405)]\<rparr>,
           [Log Verbose ''attempting request'', Http (finalConfig session0 m u d hs),
            Log Verbose ''request succeeded''])" for m u d hs
    by (rule makeRequest_first_reply) (simp_all add: always_def session0_def)
  then show ?thesis
    by (simp add: dailyCheckIn_def act_defs message_match_def lib0_def always_def)
qed

section \<open>Properties of the orchestration loop\<close>






lemma readFile_attempts [simp]: "attempts (snd (readFile f)) = 0"
  by (cases f) (simp_all add: readFile_def)

lemma readWallets_attempts [simp]: "attempts (snd (readWallets wj)) = 0"
  by (cases wj) (simp_all add: readWallets_def act_defs)





lemma steps_append [simp]: "steps (xs @ ys) = steps xs @ steps ys"
  by (induction xs rule: steps.induct) simp_all

lemma loop_steps: "steps (snd (RequestHandler_loop ax c N b i)) = []"
proof (induction "nat (N - int i)" arbitrary: i)
  case 0
  then have "\<not> int i < N" by simp
  then show ?case by (simp add: loop_done)
next
  case (Suc d)
  then have lt: "int i < N" and d: "d = nat (N - int (i + 1))" by linarith+
  from Suc.hyps(1) [OF d] lt show ?case
    by (simp add: RequestHandler_loop.simps [of ax c N b i] Let_def split: sum.splits)
qed

lemma makeRequest_steps [simp]: "steps (snd (makeRequest this m u d hs net)) = []"
  by (simp add: makeRequest_def RequestHandler_makeRequest_def loop_steps)

lemma new_LayerEdgeConnection_steps [simp]:
  "steps (snd (new_LayerEdgeConnection lib fr p key code)) = []"
  by (auto simp add: new_LayerEdgeConnection_def newAgent_def act_defs split: sum.splits option.splits)

lemma dailyCheckIn_steps [simp]: "steps (snd (dailyCheckIn lib this t net)) = []"
  by (auto simp add: dailyCheckIn_def act_defs split: sum.splits option.splits)

lemma checkNodeStatus_steps [simp]: "steps (snd (checkNodeStatus this net)) = []"
  by (auto simp add: checkNodeStatus_def act_defs split: sum.splits option.splits)

lemma stopNode_steps [simp]: "steps (snd (stopNode lib this t net)) = []"
  by (auto simp add: stopNode_def act_defs split: sum.splits option.splits)

lemma connectNode_steps [simp]: "steps (snd (connectNode lib this t net)) = []"
  by (auto simp add: connectNode_def act_defs split: sum.splits option.splits)

lemma checkNodePoints_steps [simp]: "steps (snd (checkNodePoints this net)) = []"
  by (auto simp add: checkNodePoints_def act_defs split: sum.splits option.splits)

lemma dailyCheckIn_not_Inl [simp]: "fst (dailyCheckIn lib this t net) \<noteq> Inl e"
  using dailyCheckIn_returns [of lib this t net] by auto








section \<open>The session of a wallet without a private key\<close>















end
